theory Spec2Isabelle
  imports Main
begin

section \<open>Inventory state store (reducer)\<close>

text \<open>
  The inventory context keeps one state object and changes it only through
  \<open>inventoryReducer\<close>. JavaScript numbers are carried around by the reducer without any
  arithmetic, so they are modelled as integers. Record fields carry the name of their
  interface as a prefix where the plain name (\<open>id\<close>, \<open>name\<close>) is shared by several
  interfaces.
\<close>

record Category =
  cat_id :: string
  cat_name :: string
  cat_description :: "string option"
  cat_is_active :: "bool option"

record Warehouse =
  wh_id :: string
  wh_name :: string
  wh_code :: "string option"
  wh_address :: "string option"
  wh_phone :: "string option"
  wh_is_active :: "bool option"

record InventoryItem =
  item_id :: string
  item_name :: string
  category_id :: string
  category :: "Category option"
  current_stock :: int
  min_stock :: int
  max_stock :: "int option"
  buy_price :: int
  sell_price :: int
  unit :: string
  sku :: string
  description :: "string option"
  warehouse_id :: "string option"
  warehouse :: "Warehouse option"
  created_by :: string
  created_at :: string
  updated_at :: string
  is_active :: bool

text \<open>
  \<open>InventoryFilters\<close> and \<open>Pagination\<close> are plain objects that the reducer combines with
  object spread. A spread copies every own property of its operand, also one whose value is
  \<open>undefined\<close>, so an object is a finite map from property names to values, and being
  named in an object is different from having a defined value there.
\<close>

datatype jsprim = Undefined | Str string | Num int | Boolean bool

datatype filter_key = Category_id | Min_stock | Max_stock | Search | Warehouse_id | Is_active

datatype pagination_key = Page | Limit | Total | TotalPages

type_synonym InventoryFilters = "filter_key \<rightharpoonup> jsprim"

type_synonym Pagination = "pagination_key \<rightharpoonup> jsprim"

text \<open>\<open>{ ...a, ...b }\<close>: the properties of \<open>a\<close>, overridden by those of \<open>b\<close>.\<close>

definition spread :: "('k \<rightharpoonup> 'v) \<Rightarrow> ('k \<rightharpoonup> 'v) \<Rightarrow> ('k \<rightharpoonup> 'v)" where
  "spread a b = (\<lambda>k. case b k of None \<Rightarrow> a k | Some v \<Rightarrow> Some v)"

record InventoryState =
  items :: "InventoryItem list"
  categories :: "Category list"
  warehouses :: "Warehouse list"
  lowStockItems :: "InventoryItem list"
  inventoryValue :: int
  isLoading :: bool
  error :: "string option"
  filters :: InventoryFilters
  pagination :: Pagination

definition initialState :: InventoryState where
  "initialState =
     \<lparr> items = [], categories = [], warehouses = [], lowStockItems = [],
       inventoryValue = 0, isLoading = False, error = None,
       filters = [Category_id \<mapsto> Str '''', Min_stock \<mapsto> Num 0, Search \<mapsto> Str ''''],
       pagination = [Page \<mapsto> Num 1, Limit \<mapsto> Num 10, Total \<mapsto> Num 0, TotalPages \<mapsto> Num 0] \<rparr>"

datatype InventoryAction =
    FETCH_START
  | FETCH_SUCCESS "InventoryItem list" Pagination
  | FETCH_FAILURE string
  | ADD_ITEM InventoryItem
  | UPDATE_ITEM InventoryItem
  | DELETE_ITEM string
  | SET_CATEGORIES "Category list"
  | SET_WAREHOUSES "Warehouse list"
  | SET_LOW_STOCK_ITEMS "InventoryItem list"
  | SET_INVENTORY_VALUE int
  | SET_FILTERS InventoryFilters
  | SET_PAGINATION Pagination
  | CLEAR_ERROR
  | RESET_LOADING

fun inventoryReducer :: "InventoryState \<Rightarrow> InventoryAction \<Rightarrow> InventoryState" where
  "inventoryReducer state FETCH_START = state\<lparr>isLoading := True, error := None\<rparr>"
| "inventoryReducer state (FETCH_SUCCESS its pg) =
     state\<lparr>isLoading := False, items := its, pagination := pg, error := None\<rparr>"
| "inventoryReducer state (FETCH_FAILURE msg) = state\<lparr>isLoading := False, error := Some msg\<rparr>"
| "inventoryReducer state (ADD_ITEM payload) =
     state\<lparr>items := payload # items state, isLoading := False, error := None\<rparr>"
| "inventoryReducer state (UPDATE_ITEM payload) =
     state\<lparr>items := map (\<lambda>item. if item_id item = item_id payload then payload else item)
                         (items state),
           isLoading := False, error := None\<rparr>"
| "inventoryReducer state (DELETE_ITEM payload) =
     state\<lparr>items := filter (\<lambda>item. item_id item \<noteq> payload) (items state),
           isLoading := False, error := None\<rparr>"
| "inventoryReducer state (SET_CATEGORIES cs) = state\<lparr>categories := cs\<rparr>"
| "inventoryReducer state (SET_WAREHOUSES ws) = state\<lparr>warehouses := ws\<rparr>"
| "inventoryReducer state (SET_LOW_STOCK_ITEMS its) = state\<lparr>lowStockItems := its\<rparr>"
| "inventoryReducer state (SET_INVENTORY_VALUE v) = state\<lparr>inventoryValue := v\<rparr>"
| "inventoryReducer state (SET_FILTERS payload) =
     state\<lparr>filters := spread (filters state) payload\<rparr>"
| "inventoryReducer state (SET_PAGINATION payload) =
     state\<lparr>pagination := spread (pagination state) payload\<rparr>"
| "inventoryReducer state CLEAR_ERROR = state\<lparr>error := None\<rparr>"
| "inventoryReducer state RESET_LOADING = state\<lparr>isLoading := False\<rparr>"

text \<open>Dispatching a sequence of actions, oldest first.\<close>

definition dispatch_all :: "InventoryState \<Rightarrow> InventoryAction list \<Rightarrow> InventoryState" where
  "dispatch_all = foldl inventoryReducer"

subsection \<open>The expected collection, keyed by id\<close>

text \<open>
  The reference against which the item list is compared: a finite map from ids to items,
  with insertion, replacement by id and removal by id.
\<close>

definition keyed :: "InventoryItem list \<Rightarrow> (string \<rightharpoonup> InventoryItem)" where
  "keyed xs = map_of (map (\<lambda>i. (item_id i, i)) xs)"

fun expected_items ::
  "(string \<rightharpoonup> InventoryItem) \<Rightarrow> InventoryAction \<Rightarrow> (string \<rightharpoonup> InventoryItem)" where
  "expected_items m (ADD_ITEM x) = m(item_id x \<mapsto> x)"
| "expected_items m (UPDATE_ITEM x) = (if m (item_id x) = None then m else m(item_id x \<mapsto> x))"
| "expected_items m (DELETE_ITEM k) = m(k := None)"
| "expected_items m _ = m"

fun is_item_action :: "InventoryAction \<Rightarrow> bool" where
  "is_item_action (ADD_ITEM _) = True"
| "is_item_action (UPDATE_ITEM _) = True"
| "is_item_action (DELETE_ITEM _) = True"
| "is_item_action _ = False"

text \<open>Every added item carries an id that is not in the collection when it is added.\<close>

fun adds_fresh :: "(string \<rightharpoonup> InventoryItem) \<Rightarrow> InventoryAction list \<Rightarrow> bool" where
  "adds_fresh m [] = True"
| "adds_fresh m (a # as) =
     ((case a of ADD_ITEM x \<Rightarrow> m (item_id x) = None | _ \<Rightarrow> True)
      \<and> adds_fresh (expected_items m a) as)"


section \<open>JSON text\<close>

text \<open>
  The session store keeps the cached user as JSON text, written by \<open>JSON.stringify\<close> and
  read back by \<open>JSON.parse\<close>. Both are functions of the JavaScript platform; they are
  modelled after the JSON grammar (ECMA-404). A parsed string is a list of code units,
  because a \<open>\u\<close> escape can name a code unit that is no \<open>char\<close>; a number is kept as an
  exact decimal, mantissa and exponent of ten (the rounding of doubles is not modelled).
\<close>

datatype json =
    JNull
  | JBool bool
  | JNum int int
  | JStr "nat list"
  | JArr "json list"
  | JObj "(nat list \<times> json) list"

definition code_units :: "string \<Rightarrow> nat list" where
  "code_units s = map of_char s"

text \<open>JavaScript truthiness of a parsed value.\<close>

fun truthy :: "json \<Rightarrow> bool" where
  "truthy JNull = False"
| "truthy (JBool b) = b"
| "truthy (JNum m e) = (m \<noteq> 0)"
| "truthy (JStr s) = (s \<noteq> [])"
| "truthy (JArr xs) = True"
| "truthy (JObj ms) = True"

datatype token = LBrace | RBrace | LBracket | RBracket | Colon | Comma | Lit json

definition is_ws :: "char \<Rightarrow> bool" where
  "is_ws c = (c = CHR '' '' \<or> c = CHR 0x09 \<or> c = CHR 0x0A \<or> c = CHR 0x0D)"

definition is_digit :: "char \<Rightarrow> bool" where
  "is_digit c = (48 \<le> (of_char c :: nat) \<and> (of_char c :: nat) \<le> 57)"

definition is_number_char :: "char \<Rightarrow> bool" where
  "is_number_char c =
     (is_digit c \<or> c = CHR ''-'' \<or> c = CHR ''+'' \<or> c = CHR ''.'' \<or> c = CHR ''e'' \<or> c = CHR ''E'')"

definition digits_val :: "string \<Rightarrow> nat" where
  "digits_val ds = foldl (\<lambda>n c. 10 * n + (of_char c - 48)) 0 ds"

definition hex_val :: "char \<Rightarrow> nat option" where
  "hex_val c =
     (let n = (of_char c :: nat) in
      if 48 \<le> n \<and> n \<le> 57 then Some (n - 48)
      else if 65 \<le> n \<and> n \<le> 70 then Some (n - 55)
      else if 97 \<le> n \<and> n \<le> 102 then Some (n - 87)
      else None)"

definition hex4 :: "string \<Rightarrow> nat option" where
  "hex4 s =
     (case map hex_val s of
        [Some a, Some b, Some c, Some d] \<Rightarrow> Some (((a * 16 + b) * 16 + c) * 16 + d)
      | _ \<Rightarrow> None)"

text \<open>The exponent part of a number, after the digits: nothing, or \<open>e\<close>, a sign and digits.\<close>

definition parse_exponent :: "string \<Rightarrow> int option" where
  "parse_exponent s =
     (case s of
        [] \<Rightarrow> Some 0
      | c # r \<Rightarrow>
          if c = CHR ''e'' \<or> c = CHR ''E'' then
            (let neg = (case r of [] \<Rightarrow> False | d # _ \<Rightarrow> d = CHR ''-'');
                 ds = (case r of [] \<Rightarrow> []
                       | d # r' \<Rightarrow> if d = CHR ''-'' \<or> d = CHR ''+'' then r' else r)
             in if ds \<noteq> [] \<and> list_all is_digit ds
                then Some (if neg then - int (digits_val ds) else int (digits_val ds))
                else None)
          else None)"

text \<open>
  A number: an optional minus, an integer part without a leading zero, an optional
  fraction, an optional exponent, and nothing after them.
\<close>

definition parse_number :: "string \<Rightarrow> json option" where
  "parse_number s =
     (let neg = (case s of [] \<Rightarrow> False | c # _ \<Rightarrow> c = CHR ''-'');
          s1 = (if neg then tl s else s);
          ip = takeWhile is_digit s1;
          s2 = dropWhile is_digit s1;
          has_frac = (case s2 of [] \<Rightarrow> False | c # _ \<Rightarrow> c = CHR ''.'');
          fp = (if has_frac then takeWhile is_digit (tl s2) else []);
          s3 = (if has_frac then dropWhile is_digit (tl s2) else s2)
      in if ip = [] \<or> (1 < length ip \<and> hd ip = CHR ''0'') \<or> (has_frac \<and> fp = []) then None
         else (case parse_exponent s3 of
                 None \<Rightarrow> None
               | Some e \<Rightarrow>
                   Some (JNum (if neg then - int (digits_val (ip @ fp)) else int (digits_val (ip @ fp)))
                              (e - int (length fp)))))"

text \<open>
  \<open>string_end s\<close> is the position of the quote that closes a string whose contents start
  at \<open>s\<close>: the first quote that no backslash escapes.
\<close>

fun string_end :: "string \<Rightarrow> nat option" where
  "string_end [] = None"
| "string_end (c # cs) =
     (if c = CHR 0x22 then Some 0
      else if c = CHR 0x5C then
        (case cs of [] \<Rightarrow> None | _ # cs' \<Rightarrow> map_option (\<lambda>n. n + 2) (string_end cs'))
      else map_option Suc (string_end cs))"

text \<open>The contents of a string: no control character, and only the escapes of the grammar.\<close>

fun unescape :: "string \<Rightarrow> nat list option" where
  "unescape [] = Some []"
| "unescape (c # cs) =
     (if c = CHR 0x5C then
        (case cs of
           [] \<Rightarrow> None
         | e # cs' \<Rightarrow>
             if e = CHR ''u'' then
               (case hex4 (take 4 cs') of
                  None \<Rightarrow> None
                | Some u \<Rightarrow> map_option (Cons u) (unescape (drop 4 cs')))
             else if e = CHR 0x22 then map_option (Cons 0x22) (unescape cs')
             else if e = CHR 0x5C then map_option (Cons 0x5C) (unescape cs')
             else if e = CHR ''/'' then map_option (Cons 0x2F) (unescape cs')
             else if e = CHR ''b'' then map_option (Cons 0x08) (unescape cs')
             else if e = CHR ''f'' then map_option (Cons 0x0C) (unescape cs')
             else if e = CHR ''n'' then map_option (Cons 0x0A) (unescape cs')
             else if e = CHR ''r'' then map_option (Cons 0x0D) (unescape cs')
             else if e = CHR ''t'' then map_option (Cons 0x09) (unescape cs')
             else None)
      else if (of_char c :: nat) < 0x20 then None
      else map_option (Cons (of_char c)) (unescape cs))"

fun tokenize :: "string \<Rightarrow> token list option" where
  "tokenize [] = Some []"
| "tokenize (c # cs) =
     (if is_ws c then tokenize cs
      else if c = CHR ''{'' then map_option (Cons LBrace) (tokenize cs)
      else if c = CHR ''}'' then map_option (Cons RBrace) (tokenize cs)
      else if c = CHR ''['' then map_option (Cons LBracket) (tokenize cs)
      else if c = CHR '']'' then map_option (Cons RBracket) (tokenize cs)
      else if c = CHR '':'' then map_option (Cons Colon) (tokenize cs)
      else if c = CHR '','' then map_option (Cons Comma) (tokenize cs)
      else if c = CHR 0x22 then
        (case string_end cs of
           None \<Rightarrow> None
         | Some n \<Rightarrow>
             (case unescape (take n cs) of
                None \<Rightarrow> None
              | Some str \<Rightarrow> map_option (Cons (Lit (JStr str))) (tokenize (drop (Suc n) cs))))
      else if c = CHR ''-'' \<or> is_digit c then
        (case parse_number (c # takeWhile is_number_char cs) of
           None \<Rightarrow> None
         | Some v \<Rightarrow>
             map_option (Cons (Lit v)) (tokenize (drop (length (takeWhile is_number_char cs)) cs)))
      else if c = CHR ''t'' \<and> take 3 cs = ''rue'' then
        map_option (Cons (Lit (JBool True))) (tokenize (drop 3 cs))
      else if c = CHR ''f'' \<and> take 4 cs = ''alse'' then
        map_option (Cons (Lit (JBool False))) (tokenize (drop 4 cs))
      else if c = CHR ''n'' \<and> take 3 cs = ''ull'' then
        map_option (Cons (Lit JNull)) (tokenize (drop 3 cs))
      else None)"

text \<open>
  The values are built from the tokens with a stack of the arrays and objects that are still
  open: \<open>parse_value\<close> expects a value, \<open>parse_after\<close> has just completed one.
\<close>

datatype frame = InArray "json list" | InObject "(nat list \<times> json) list" "nat list"

fun parse_value :: "frame list \<Rightarrow> token list \<Rightarrow> json option"
  and parse_after :: "json \<Rightarrow> frame list \<Rightarrow> token list \<Rightarrow> json option" where
  "parse_value st [] = None"
| "parse_value st (t # ts) =
     (case t of
        Lit v \<Rightarrow> parse_after v st ts
      | LBracket \<Rightarrow>
          (case ts of
             RBracket # ts' \<Rightarrow> parse_after (JArr []) st ts'
           | _ \<Rightarrow> parse_value (InArray [] # st) ts)
      | LBrace \<Rightarrow>
          (case ts of
             RBrace # ts' \<Rightarrow> parse_after (JObj []) st ts'
           | Lit (JStr k) # Colon # ts' \<Rightarrow> parse_value (InObject [] k # st) ts'
           | _ \<Rightarrow> None)
      | _ \<Rightarrow> None)"
| "parse_after v [] ts = (if ts = [] then Some v else None)"
| "parse_after v (f # st) [] = None"
| "parse_after v (f # st) (t # ts) =
     (case f of
        InArray xs \<Rightarrow>
          (case t of
             Comma \<Rightarrow> parse_value (InArray (v # xs) # st) ts
           | RBracket \<Rightarrow> parse_after (JArr (rev (v # xs))) st ts
           | _ \<Rightarrow> None)
      | InObject ms k \<Rightarrow>
          (case t of
             Comma \<Rightarrow>
               (case ts of
                  Lit (JStr k') # Colon # ts' \<Rightarrow> parse_value (InObject ((k, v) # ms) k' # st) ts'
                | _ \<Rightarrow> None)
           | RBrace \<Rightarrow> parse_after (JObj (rev ((k, v) # ms))) st ts
           | _ \<Rightarrow> None))"

datatype SyntaxError = SyntaxError

definition JSON_parse :: "string \<Rightarrow> SyntaxError + json" where
  "JSON_parse s =
     (case tokenize s of
        None \<Rightarrow> Inl SyntaxError
      | Some ts \<Rightarrow> (case parse_value [] ts of None \<Rightarrow> Inl SyntaxError | Some v \<Rightarrow> Inr v))"

subsection \<open>Writing a user as JSON text\<close>

datatype UserRole = Super_admin | Gudang | Kasir | Manajer

fun role_name :: "UserRole \<Rightarrow> string" where
  "role_name Super_admin = ''super_admin''"
| "role_name Gudang = ''gudang''"
| "role_name Kasir = ''kasir''"
| "role_name Manajer = ''manajer''"

record User =
  user_id :: string
  username :: string
  email :: string
  full_name :: string
  role :: UserRole
  user_warehouse_id :: "string option"
  user_is_active :: bool
  is_verified :: "bool option"
  user_created_at :: "string option"
  user_updated_at :: "string option"
  last_login :: "string option"

definition hex_digit :: "nat \<Rightarrow> char" where
  "hex_digit n = ''0123456789abcdef'' ! (n mod 16)"

definition quote_char :: "char \<Rightarrow> string" where
  "quote_char c =
     (if c = CHR 0x22 then [CHR 0x5C, CHR 0x22]
      else if c = CHR 0x5C then [CHR 0x5C, CHR 0x5C]
      else if c = CHR 0x08 then [CHR 0x5C, CHR ''b'']
      else if c = CHR 0x09 then [CHR 0x5C, CHR ''t'']
      else if c = CHR 0x0A then [CHR 0x5C, CHR ''n'']
      else if c = CHR 0x0C then [CHR 0x5C, CHR ''f'']
      else if c = CHR 0x0D then [CHR 0x5C, CHR ''r'']
      else if (of_char c :: nat) < 0x20 then
        [CHR 0x5C, CHR ''u'', CHR ''0'', CHR ''0'',
         hex_digit (of_char c div 16), hex_digit (of_char c mod 16)]
      else [c])"

definition quote :: "string \<Rightarrow> string" where
  "quote s = [CHR 0x22] @ concat (map quote_char s) @ [CHR 0x22]"

definition member :: "string \<Rightarrow> string \<Rightarrow> string list" where
  "member k v = [quote k @ '':'' @ v]"

text \<open>A property whose value is \<open>undefined\<close> is left out of the text.\<close>

definition optional_member :: "string \<Rightarrow> string option \<Rightarrow> string list" where
  "optional_member k v = (case v of None \<Rightarrow> [] | Some x \<Rightarrow> member k x)"

definition bool_text :: "bool \<Rightarrow> string" where
  "bool_text b = (if b then ''true'' else ''false'')"

fun join_commas :: "string list \<Rightarrow> string" where
  "join_commas [] = []"
| "join_commas [x] = x"
| "join_commas (x # y # ys) = x @ '','' @ join_commas (y # ys)"

definition JSON_stringify_User :: "User \<Rightarrow> string" where
  "JSON_stringify_User u =
     ''{'' @ join_commas
       (member ''id'' (quote (user_id u))
        @ member ''username'' (quote (username u))
        @ member ''email'' (quote (email u))
        @ member ''full_name'' (quote (full_name u))
        @ member ''role'' (quote (role_name (role u)))
        @ optional_member ''warehouse_id'' (map_option quote (user_warehouse_id u))
        @ member ''is_active'' (bool_text (user_is_active u))
        @ optional_member ''is_verified'' (map_option bool_text (is_verified u))
        @ optional_member ''created_at'' (map_option quote (user_created_at u))
        @ optional_member ''updated_at'' (map_option quote (user_updated_at u))
        @ optional_member ''last_login'' (map_option quote (last_login u)))
     @ ''}''"

section \<open>The browser: storage, location and network\<close>

text \<open>
  \<open>localStorage\<close> maps keys to strings. Every assignment to \<open>window.location.href\<close> and
  every request handed to the network are recorded in order, so that a theorem can say how
  often the client navigated and whether it called the server. The answers of the server
  are inputs of the operations.
\<close>

record LoginCredentials =
  login_username :: string
  login_password :: string

record RegisterPayload =
  reg_full_name :: string
  reg_username :: string
  reg_email :: string
  reg_password :: string
  reg_role :: UserRole
  reg_warehouse_id :: "string option"

record AuthResponse =
  access_token :: "string option"
  refresh_token :: "string option"
  token_type :: string
  expires_in :: int
  user :: "User option"

record http_response =
  status :: int
  data :: json

record AxiosError =
  response :: "http_response option"
  message :: string

datatype 'a reply = Fulfilled 'a | Rejected AxiosError

datatype thrown = Error string | Axios AxiosError

datatype body = No_body | Credentials LoginCredentials | Registration RegisterPayload | Data json

record request =
  req_method :: string
  req_url :: string
  req_authorization :: "string option"
  req_body :: body

record Browser =
  localStorage :: "string \<rightharpoonup> string"
  location_hrefs :: "string list"
  requests :: "request list"

definition navigate :: "string \<Rightarrow> Browser \<Rightarrow> Browser" where
  "navigate href b = b\<lparr>location_hrefs := location_hrefs b @ [href]\<rparr>"

section \<open>Session store and authentication service\<close>

definition tokenKey :: string where "tokenKey = ''inventory_token''"

definition refreshKey :: string where "refreshKey = ''refresh_token''"

definition userKey :: string where "userKey = ''inventory_user''"

text \<open>A string or \<open>null\<close> used as a condition: \<open>null\<close> and the empty string are falsy.\<close>

definition truthy_string :: "string option \<Rightarrow> bool" where
  "truthy_string v = (case v of None \<Rightarrow> False | Some t \<Rightarrow> t \<noteq> [])"

definition setToken :: "string \<Rightarrow> Browser \<Rightarrow> Browser" where
  "setToken token b = b\<lparr>localStorage := (localStorage b)(tokenKey \<mapsto> token)\<rparr>"

definition getToken :: "Browser \<Rightarrow> string option" where
  "getToken b = localStorage b tokenKey"

definition setUser :: "User \<Rightarrow> Browser \<Rightarrow> Browser" where
  "setUser u b = b\<lparr>localStorage := (localStorage b)(userKey \<mapsto> JSON_stringify_User u)\<rparr>"

text \<open>\<open>getUser\<close> returns what \<open>JSON.parse\<close> returns, \<open>JNull\<close> being \<open>null\<close>.\<close>

definition getUser :: "Browser \<Rightarrow> SyntaxError + json" where
  "getUser b =
     (let userStr = localStorage b userKey
      in if truthy_string userStr then JSON_parse (the userStr) else Inr JNull)"

definition isAuthenticated :: "Browser \<Rightarrow> bool" where
  "isAuthenticated b = truthy_string (getToken b)"

definition clearAuth :: "Browser \<Rightarrow> Browser" where
  "clearAuth b =
     b\<lparr>localStorage := (localStorage b)(tokenKey := None, refreshKey := None, userKey := None)\<rparr>"

text \<open>
  The request interceptor of the service's axios instance: the token, when truthy, goes
  into the \<open>Authorization\<close> header.
\<close>

definition authorization :: "string option \<Rightarrow> string option" where
  "authorization token = (if truthy_string token then Some (''Bearer '' @ the token) else None)"

definition api_send :: "string \<Rightarrow> string \<Rightarrow> body \<Rightarrow> Browser \<Rightarrow> Browser" where
  "api_send m url bd b =
     b\<lparr>requests := requests b @
        [\<lparr>req_method = m, req_url = url,
          req_authorization = authorization (localStorage b ''inventory_token''),
          req_body = bd\<rparr>]\<rparr>"

text \<open>
  \<open>getCurrentUser\<close>; \<open>me\<close> is the answer of \<open>GET /auth/me\<close>, with \<open>None\<close> for a
  body that is empty or \<open>null\<close>.
\<close>

definition getCurrentUser :: "User option reply \<Rightarrow> Browser \<Rightarrow> User option \<times> Browser" where
  "getCurrentUser me b =
     (if \<not> truthy_string (getToken b) then (None, b)
      else
        (let b1 = api_send ''GET'' ''/auth/me'' No_body b
         in case me of
              Fulfilled res_data \<Rightarrow>
                (case res_data of
                   Some u \<Rightarrow> (Some u, setUser u b1)
                 | None \<Rightarrow> (None, b1))
            | Rejected err \<Rightarrow> (None, clearAuth b1)))"

text \<open>
  \<open>login\<close>; \<open>auth\<close> is the answer of \<open>POST /auth/login\<close> and \<open>me\<close> the answer that
  \<open>GET /auth/me\<close> gives if it is asked. The \<open>catch\<close> of the source logs the error and
  throws it again.
\<close>

definition login ::
  "LoginCredentials \<Rightarrow> AuthResponse reply \<Rightarrow> User option reply \<Rightarrow> Browser
     \<Rightarrow> (thrown + User) \<times> Browser" where
  "login credentials auth me b =
     (let b1 = api_send ''POST'' ''/auth/login'' (Credentials credentials) b
      in case auth of
           Rejected err \<Rightarrow> (Inl (Axios err), b1)
         | Fulfilled res \<Rightarrow>
             if \<not> truthy_string (access_token res)
             then (Inl (Error ''Login failed: access token missing''), b1)
             else
               (let b2 = setToken (the (access_token res)) b1;
                    b3 = (if truthy_string (refresh_token res)
                          then b2\<lparr>localStorage :=
                                    (localStorage b2)(refreshKey \<mapsto> the (refresh_token res))\<rparr>
                          else b2)
                in case user res of
                     Some u \<Rightarrow> (Inr u, setUser u b3)
                   | None \<Rightarrow>
                       (case getCurrentUser me b3 of
                          (None, b4) \<Rightarrow> (Inl (Error ''Login failed: user data missing''), b4)
                        | (Some currentUser, b4) \<Rightarrow> (Inr currentUser, b4))))"

definition register ::
  "RegisterPayload \<Rightarrow> unit reply \<Rightarrow> Browser \<Rightarrow> (thrown + unit) \<times> Browser" where
  "register payload r b =
     (let b1 = api_send ''POST'' ''/auth/register'' (Registration payload) b
      in case r of
           Fulfilled _ \<Rightarrow> (Inr (), b1)
         | Rejected err \<Rightarrow> (Inl (Axios err), b1))"

text \<open>\<open>logout\<close>: the \<open>catch\<close> only logs, and the \<open>finally\<close> block runs on both paths.\<close>

definition logout :: "unit reply \<Rightarrow> Browser \<Rightarrow> (thrown + unit) \<times> Browser" where
  "logout r b =
     (let b1 = api_send ''POST'' ''/auth/logout'' No_body b;
          finally = (\<lambda>b'. navigate ''/login'' (clearAuth b'))
      in case r of
           Fulfilled _ \<Rightarrow> (Inr (), finally b1)
         | Rejected err \<Rightarrow> (Inr (), finally b1))"

section \<open>The API client and its interceptors\<close>

text \<open>What the promise of a failed call is rejected with: \<open>error.response?.data || error\<close>.\<close>

datatype rejection = Rejected_with_data json | Rejected_with_error AxiosError

definition normalized_error :: "AxiosError \<Rightarrow> rejection" where
  "normalized_error err =
     (case response err of
        None \<Rightarrow> Rejected_with_error err
      | Some r \<Rightarrow> if truthy (data r) then Rejected_with_data (data r) else Rejected_with_error err)"

definition on_response_error :: "AxiosError \<Rightarrow> Browser \<Rightarrow> rejection \<times> Browser" where
  "on_response_error err b =
     (let b1 = (if map_option status (response err) = Some 401
                then navigate ''/login'' (clearAuth b)
                else b)
      in (normalized_error err, b1))"

definition client_send :: "string \<Rightarrow> string \<Rightarrow> body \<Rightarrow> Browser \<Rightarrow> Browser" where
  "client_send m url bd b =
     b\<lparr>requests := requests b @
        [\<lparr>req_method = m, req_url = url, req_authorization = authorization (getToken b),
          req_body = bd\<rparr>]\<rparr>"

text \<open>
  One call through the client (\<open>get\<close>, \<open>post\<close>, \<open>put\<close>, \<open>delete\<close>): the request is sent
  once, a fulfilled response is unwrapped to its data, and a failed one goes through
  \<open>on_response_error\<close>.
\<close>

definition ApiClient_request ::
  "string \<Rightarrow> string \<Rightarrow> body \<Rightarrow> http_response reply \<Rightarrow> Browser \<Rightarrow> (rejection + json) \<times> Browser" where
  "ApiClient_request m url bd r b =
     (let b1 = client_send m url bd b
      in case r of
           Fulfilled res \<Rightarrow> (Inr (data res), b1)
         | Rejected err \<Rightarrow> (case on_response_error err b1 of (rej, b2) \<Rightarrow> (Inl rej, b2)))"

section \<open>The authentication provider\<close>

record AuthProvider =
  ctx_user :: "User option"
  ctx_isLoading :: bool
  ctx_error :: "string option"

definition AuthProvider_initial :: AuthProvider where
  "AuthProvider_initial = \<lparr> ctx_user = None, ctx_isLoading = True, ctx_error = None \<rparr>"

definition ctx_isAuthenticated :: "AuthProvider \<Rightarrow> bool" where
  "ctx_isAuthenticated p = (ctx_user p \<noteq> None)"

record Client =
  browser :: Browser
  provider :: AuthProvider

definition checkAuth :: "User option reply \<Rightarrow> Client \<Rightarrow> Client" where
  "checkAuth me c =
     (case getCurrentUser me (browser c) of
        (currentUser, b) \<Rightarrow>
          \<lparr> browser = b,
            provider = (provider c)\<lparr>ctx_user := currentUser, ctx_error := None,
                                   ctx_isLoading := False\<rparr> \<rparr>)"

fun thrown_message :: "thrown \<Rightarrow> string" where
  "thrown_message (Error msg) = msg"
| "thrown_message (Axios err) = message err"

fun dashboard_of :: "UserRole \<Rightarrow> string" where
  "dashboard_of Super_admin = ''/dashboard/superadmin''"
| "dashboard_of Gudang = ''/dashboard/gudang''"
| "dashboard_of _ = ''/''"

definition ctx_login ::
  "LoginCredentials \<Rightarrow> AuthResponse reply \<Rightarrow> User option reply \<Rightarrow> Client
     \<Rightarrow> (thrown + unit) \<times> Client" where
  "ctx_login credentials auth me c =
     (let p1 = (provider c)\<lparr>ctx_isLoading := True, ctx_error := None\<rparr>
      in case login credentials auth me (browser c) of
           (Inr loggedInUser, b) \<Rightarrow>
             (Inr (),
              \<lparr> browser = navigate (dashboard_of (role loggedInUser)) b,
                provider = p1\<lparr>ctx_user := Some loggedInUser, ctx_isLoading := False\<rparr> \<rparr>)
         | (Inl err, b) \<Rightarrow>
             (Inl err,
              \<lparr> browser = b,
                provider = p1\<lparr>ctx_error := Some (if thrown_message err = [] then ''Login failed''
                                                 else thrown_message err),
                              ctx_isLoading := False\<rparr> \<rparr>))"

definition ctx_register ::
  "RegisterPayload \<Rightarrow> unit reply \<Rightarrow> Client \<Rightarrow> (thrown + unit) \<times> Client" where
  "ctx_register payload r c =
     (let p1 = (provider c)\<lparr>ctx_isLoading := True, ctx_error := None\<rparr>
      in case register payload r (browser c) of
           (Inr _, b) \<Rightarrow> (Inr (), \<lparr> browser = b, provider = p1\<lparr>ctx_isLoading := False\<rparr> \<rparr>)
         | (Inl err, b) \<Rightarrow>
             (Inl err,
              \<lparr> browser = b,
                provider = p1\<lparr>ctx_error := Some (if thrown_message err = []
                                                 then ''Registration failed''
                                                 else thrown_message err),
                              ctx_isLoading := False\<rparr> \<rparr>))"

definition ctx_logout :: "unit reply \<Rightarrow> Client \<Rightarrow> Client" where
  "ctx_logout r c =
     (case logout r (browser c) of
        (_, b) \<Rightarrow> \<lparr> browser = b, provider = (provider c)\<lparr>ctx_user := None, ctx_error := None\<rparr> \<rparr>)"

subsection \<open>Client states that can be reached\<close>

text \<open>
  What can happen to the client, one event at a time: the provider is mounted afresh (a
  page load), its \<open>checkAuth\<close> effect completes, the user logs in, registers or logs out,
  or some component makes a call through the API client. Each event carries the answers
  of the server.
\<close>

datatype event =
    Mount
  | CheckAuth "User option reply"
  | Login LoginCredentials "AuthResponse reply" "User option reply"
  | Register RegisterPayload "unit reply"
  | Logout "unit reply"
  | ApiCall string string body "http_response reply"

fun step :: "Client \<Rightarrow> event \<Rightarrow> Client" where
  "step c Mount = c\<lparr>provider := AuthProvider_initial\<rparr>"
| "step c (CheckAuth me) = checkAuth me c"
| "step c (Login credentials auth me) = snd (ctx_login credentials auth me c)"
| "step c (Register payload r) = snd (ctx_register payload r c)"
| "step c (Logout r) = ctx_logout r c"
| "step c (ApiCall m url bd r) = c\<lparr>browser := snd (ApiClient_request m url bd r (browser c))\<rparr>"

definition run :: "Client \<Rightarrow> event list \<Rightarrow> Client" where
  "run = foldl step"

definition initial_client :: Client where
  "initial_client =
     \<lparr> browser = \<lparr> localStorage = Map.empty, location_hrefs = [], requests = [] \<rparr>,
       provider = AuthProvider_initial \<rparr>"

subsection \<open>Events that take the token away\<close>

text \<open>
  An event removes the token when a token is stored before it and none after it. The
  failure path of \<open>getCurrentUser\<close> is taken when the profile fetch is rejected, either
  in \<open>checkAuth\<close> or in the recovery step of \<open>login\<close> (which is reached when the login
  response carries a token and no user).
\<close>

definition removes_token :: "event \<Rightarrow> Client \<Rightarrow> bool" where
  "removes_token e c =
     (getToken (browser c) \<noteq> None \<and> getToken (browser (step c e)) = None)"

fun profile_fetch_failed :: "event \<Rightarrow> bool" where
  "profile_fetch_failed (CheckAuth (Rejected err)) = True"
| "profile_fetch_failed (Login credentials (Fulfilled res) (Rejected err)) =
     (truthy_string (access_token res) \<and> user res = None)"
| "profile_fetch_failed _ = False"

fun is_logout :: "event \<Rightarrow> bool" where
  "is_logout (Logout r) = True"
| "is_logout _ = False"

fun is_unauthorized_call :: "event \<Rightarrow> bool" where
  "is_unauthorized_call (ApiCall m url bd (Rejected err)) =
     (map_option status (response err) = Some 401)"
| "is_unauthorized_call _ = False"

section \<open>Sample data\<close>

text \<open>Concrete values on which the theorems below are instantiated.\<close>

definition sample_item :: "string \<Rightarrow> string \<Rightarrow> int \<Rightarrow> InventoryItem" where
  "sample_item i n stock =
     \<lparr> item_id = i, item_name = n, category_id = ''1'', category = None,
       current_stock = stock, min_stock = 5, max_stock = Some 50,
       buy_price = 15000000, sell_price = 18000000, unit = ''pcs'', sku = ''ELEC-001'',
       description = None, warehouse_id = Some ''1'', warehouse = None,
       created_by = ''admin'', created_at = ''2024-01-01'', updated_at = ''2024-01-01'',
       is_active = True \<rparr>"

definition sample_state :: InventoryState where
  "sample_state =
     initialState\<lparr>items := [sample_item ''a'' ''Laptop'' 15, sample_item ''b'' ''Kaos'' 100]\<rparr>"

definition sample_actions :: "InventoryAction list" where
  "sample_actions =
     [ADD_ITEM (sample_item ''c'' ''Pena'' 7),
      UPDATE_ITEM (sample_item ''a'' ''Laptop'' 20),
      DELETE_ITEM ''b'',
      DELETE_ITEM ''zz'',
      UPDATE_ITEM (sample_item ''yy'' ''Hilang'' 1)]"

definition empty_browser :: Browser where
  "empty_browser = \<lparr> localStorage = Map.empty, location_hrefs = [], requests = [] \<rparr>"

definition sample_user :: User where
  "sample_user =
     \<lparr> user_id = ''u-1'', username = ''staff_gudang'', email = ''staff@gudang.com'',
       full_name = ''Staff Gudang'', role = Gudang, user_warehouse_id = Some ''w-1'',
       user_is_active = True, is_verified = Some True, user_created_at = None,
       user_updated_at = None, last_login = None \<rparr>"

definition sample_credentials :: LoginCredentials where
  "sample_credentials = \<lparr> login_username = ''staff_gudang'', login_password = ''Staff123!'' \<rparr>"

text \<open>A login response with a token and no user, and one with everything.\<close>

definition token_only_response :: AuthResponse where
  "token_only_response =
     \<lparr> access_token = Some ''t1'', refresh_token = None, token_type = ''bearer'',
       expires_in = 3600, user = None \<rparr>"

definition full_response :: AuthResponse where
  "full_response =
     \<lparr> access_token = Some ''t1'', refresh_token = Some ''r1'', token_type = ''bearer'',
       expires_in = 3600, user = Some sample_user \<rparr>"

text \<open>A 401 with the usual error payload, and a 500 whose body is empty.\<close>

definition unauthorized_error :: AxiosError where
  "unauthorized_error =
     \<lparr> response =
         Some \<lparr> status = 401,
                data = JObj [(code_units ''detail'', JStr (code_units ''Not authenticated''))] \<rparr>,
       message = ''Request failed with status code 401'' \<rparr>"

definition empty_body_error :: AxiosError where
  "empty_body_error =
     \<lparr> response = Some \<lparr> status = 500, data = JStr [] \<rparr>,
       message = ''Request failed with status code 500'' \<rparr>"

definition logged_in_browser :: Browser where
  "logged_in_browser =
     \<lparr> localStorage = [tokenKey \<mapsto> ''t1'', refreshKey \<mapsto> ''r1'',
                       userKey \<mapsto> JSON_stringify_User sample_user],
       location_hrefs = [], requests = [] \<rparr>"

definition logged_in_client :: Client where
  "logged_in_client =
     \<lparr> browser = logged_in_browser,
       provider = \<lparr> ctx_user = Some sample_user, ctx_isLoading = False, ctx_error = None \<rparr> \<rparr>"

definition malformed_user_browser :: Browser where
  "malformed_user_browser =
     \<lparr> localStorage = [tokenKey \<mapsto> ''t1'', userKey \<mapsto> ''not json''],
       location_hrefs = [], requests = [] \<rparr>"

text \<open>
  Two runs from the initial client: a login followed by a page load, and a login followed
  by a call that the server answers with 401.
\<close>

definition reloaded_client :: Client where
  "reloaded_client =
     run initial_client
       [Login sample_credentials (Fulfilled full_response) (Fulfilled None), Mount]"

definition rejected_client :: Client where
  "rejected_client =
     run initial_client
       [Login sample_credentials (Fulfilled full_response) (Fulfilled None),
        ApiCall ''GET'' ''/inventory'' No_body (Rejected unauthorized_error)]"

section \<open>Properties of the reducer\<close>

lemma keyed_dom: "keyed xs k = None \<longleftrightarrow> k \<notin> item_id ` set xs"
  by (induction xs) (auto simp: keyed_def)

lemma keyed_add: "keyed (x # xs) = (keyed xs)(item_id x \<mapsto> x)"
  by (simp add: keyed_def)

lemma keyed_update:
  "keyed (map (\<lambda>item. if item_id item = item_id x then x else item) xs)
     = (if keyed xs (item_id x) = None then keyed xs else (keyed xs)(item_id x \<mapsto> x))"
  by (induction xs) (auto simp: keyed_def fun_eq_iff)

lemma keyed_delete: "keyed (filter (\<lambda>item. item_id item \<noteq> k) xs) = (keyed xs)(k := None)"
  by (induction xs) (auto simp: keyed_def fun_eq_iff)

text \<open>One item action changes the list as the keyed collection says, duplicates or not.\<close>

lemma keyed_step:
  "is_item_action a \<Longrightarrow>
     keyed (items (inventoryReducer s a)) = expected_items (keyed (items s)) a"
  by (cases a) (simp_all add: keyed_add keyed_update keyed_delete)

lemma keyed_dispatch_all:
  "\<forall>a\<in>set acts. is_item_action a \<Longrightarrow>
     keyed (items (dispatch_all s acts)) = foldl expected_items (keyed (items s)) acts"
  unfolding dispatch_all_def
  by (induction acts arbitrary: s) (simp_all add: keyed_step)

lemma update_ids:
  "map item_id (map (\<lambda>item. if item_id item = item_id x then x else item) xs) = map item_id xs"
  by (induction xs) auto

lemma distinct_step:
  assumes "distinct (map item_id (items s))"
    and "case a of ADD_ITEM x \<Rightarrow> keyed (items s) (item_id x) = None | _ \<Rightarrow> True"
    and "is_item_action a"
  shows "distinct (map item_id (items (inventoryReducer s a)))"
  using assms
  by (cases a) (auto simp: keyed_dom update_ids distinct_map_filter simp del: map_map)

lemma distinct_dispatch_all:
  "\<forall>a\<in>set acts. is_item_action a \<Longrightarrow> distinct (map item_id (items s)) \<Longrightarrow>
   adds_fresh (keyed (items s)) acts \<Longrightarrow>
     distinct (map item_id (items (dispatch_all s acts)))"
  unfolding dispatch_all_def
proof (induction acts arbitrary: s)
  case Nil
  then show ?case by simp
next
  case (Cons a acts)
  have d: "distinct (map item_id (items (inventoryReducer s a)))"
    using Cons.prems by (intro distinct_step) auto
  have f: "adds_fresh (keyed (items (inventoryReducer s a))) acts"
    using Cons.prems by (simp add: keyed_step)
  show ?case
    using Cons.IH[OF _ d f] Cons.prems(1) by simp
qed

lemma keyed_Some_iff:
  "distinct (map item_id xs) \<Longrightarrow>
     keyed xs k = Some i \<longleftrightarrow> i \<in> set xs \<and> item_id i = k"
  by (induction xs) (auto simp: keyed_def image_iff)

lemma ran_keyed: "distinct (map item_id xs) \<Longrightarrow> ran (keyed xs) = set xs"
  by (auto simp: ran_def keyed_Some_iff)

lemma delete_missing:
  "k \<notin> item_id ` set xs \<Longrightarrow> filter (\<lambda>item. item_id item \<noteq> k) xs = xs"
  by (induction xs) auto

lemma update_missing:
  "item_id x \<notin> item_id ` set xs \<Longrightarrow>
     map (\<lambda>item. if item_id item = item_id x then x else item) xs = xs"
  by (induction xs) auto

lemma item_id_sample [simp]: "item_id (sample_item i n c) = i"
  by (simp add: sample_item_def)

text \<open>
  C1. Start from a state whose items have pairwise distinct ids and dispatch any sequence
  of \<open>ADD_ITEM\<close>, \<open>UPDATE_ITEM\<close> and \<open>DELETE_ITEM\<close> actions in which every added item
  has an id that is not in the list at that moment. Then the resulting list, read as a
  collection keyed by id, is the collection obtained by inserting, replacing by id and
  removing by id; its ids are still pairwise distinct and its elements are exactly the
  values of that collection. A \<open>DELETE_ITEM\<close> or an \<open>UPDATE_ITEM\<close> whose id matches no
  item leaves the list as it is.
\<close>

theorem reducer_items_keyed_by_id:
  assumes "\<forall>a\<in>set acts. is_item_action a"
    and "distinct (map item_id (items s))"
    and "adds_fresh (keyed (items s)) acts"
  shows "keyed (items (dispatch_all s acts)) = foldl expected_items (keyed (items s)) acts
       \<and> distinct (map item_id (items (dispatch_all s acts)))
       \<and> set (items (dispatch_all s acts)) = ran (foldl expected_items (keyed (items s)) acts)
       \<and> (k \<notin> item_id ` set (items s)
            \<longrightarrow> items (inventoryReducer s (DELETE_ITEM k)) = items s)
       \<and> (item_id x \<notin> item_id ` set (items s)
            \<longrightarrow> items (inventoryReducer s (UPDATE_ITEM x)) = items s)"
proof -
  have m: "keyed (items (dispatch_all s acts)) = foldl expected_items (keyed (items s)) acts"
    using assms(1) by (rule keyed_dispatch_all)
  have d: "distinct (map item_id (items (dispatch_all s acts)))"
    using assms by (rule distinct_dispatch_all)
  have r: "set (items (dispatch_all s acts)) = ran (foldl expected_items (keyed (items s)) acts)"
    using ran_keyed[OF d] m by simp
  show ?thesis
    using m d r by (simp add: delete_missing update_missing)
qed

theorem reducer_items_keyed_by_id_witness:
  "list_all is_item_action sample_actions
   \<and> distinct (map item_id (items sample_state))
   \<and> adds_fresh (keyed (items sample_state)) sample_actions
   \<and> items (dispatch_all sample_state sample_actions)
       = [sample_item ''c'' ''Pena'' 7, sample_item ''a'' ''Laptop'' 20]
   \<and> keyed (items (dispatch_all sample_state sample_actions))
       = foldl expected_items (keyed (items sample_state)) sample_actions
   \<and> set (items (dispatch_all sample_state sample_actions))
       = ran (foldl expected_items (keyed (items sample_state)) sample_actions)
   \<and> items (inventoryReducer sample_state (DELETE_ITEM ''zz'')) = items sample_state
   \<and> items (inventoryReducer sample_state (UPDATE_ITEM (sample_item ''yy'' ''Hilang'' 1)))
       = items sample_state"
proof -
  have h1: "\<forall>a\<in>set sample_actions. is_item_action a"
    by (simp add: sample_actions_def)
  have h2: "distinct (map item_id (items sample_state))"
    by (simp add: sample_state_def)
  have h3: "adds_fresh (keyed (items sample_state)) sample_actions"
    by (simp add: sample_state_def sample_actions_def keyed_def)
  have run: "items (dispatch_all sample_state sample_actions)
       = [sample_item ''c'' ''Pena'' 7, sample_item ''a'' ''Laptop'' 20]"
    by (simp add: sample_state_def sample_actions_def dispatch_all_def)
  have k: "''zz'' \<notin> item_id ` set (items sample_state)"
    and x: "item_id (sample_item ''yy'' ''Hilang'' 1) \<notin> item_id ` set (items sample_state)"
    by (simp_all add: sample_state_def)
  show ?thesis
    using reducer_items_keyed_by_id[OF h1 h2 h3, of "''zz''" "sample_item ''yy'' ''Hilang'' 1"]
      h1 h2 h3 run k x by (simp add: list_all_iff)
qed

text \<open>
  C10. Each of \<open>ADD_ITEM\<close>, \<open>UPDATE_ITEM\<close> and \<open>DELETE_ITEM\<close> sets \<open>isLoading\<close> to false
  and \<open>error\<close> to null, and leaves \<open>categories\<close>, \<open>warehouses\<close>, \<open>lowStockItems\<close>,
  \<open>inventoryValue\<close>, \<open>filters\<close> and \<open>pagination\<close> as they were.
\<close>

theorem item_actions_frame:
  "isLoading (inventoryReducer s (ADD_ITEM x)) = False
   \<and> error (inventoryReducer s (ADD_ITEM x)) = None
   \<and> categories (inventoryReducer s (ADD_ITEM x)) = categories s
   \<and> warehouses (inventoryReducer s (ADD_ITEM x)) = warehouses s
   \<and> lowStockItems (inventoryReducer s (ADD_ITEM x)) = lowStockItems s
   \<and> inventoryValue (inventoryReducer s (ADD_ITEM x)) = inventoryValue s
   \<and> filters (inventoryReducer s (ADD_ITEM x)) = filters s
   \<and> pagination (inventoryReducer s (ADD_ITEM x)) = pagination s
   \<and> isLoading (inventoryReducer s (UPDATE_ITEM x)) = False
   \<and> error (inventoryReducer s (UPDATE_ITEM x)) = None
   \<and> categories (inventoryReducer s (UPDATE_ITEM x)) = categories s
   \<and> warehouses (inventoryReducer s (UPDATE_ITEM x)) = warehouses s
   \<and> lowStockItems (inventoryReducer s (UPDATE_ITEM x)) = lowStockItems s
   \<and> inventoryValue (inventoryReducer s (UPDATE_ITEM x)) = inventoryValue s
   \<and> filters (inventoryReducer s (UPDATE_ITEM x)) = filters s
   \<and> pagination (inventoryReducer s (UPDATE_ITEM x)) = pagination s
   \<and> isLoading (inventoryReducer s (DELETE_ITEM k)) = False
   \<and> error (inventoryReducer s (DELETE_ITEM k)) = None
   \<and> categories (inventoryReducer s (DELETE_ITEM k)) = categories s
   \<and> warehouses (inventoryReducer s (DELETE_ITEM k)) = warehouses s
   \<and> lowStockItems (inventoryReducer s (DELETE_ITEM k)) = lowStockItems s
   \<and> inventoryValue (inventoryReducer s (DELETE_ITEM k)) = inventoryValue s
   \<and> filters (inventoryReducer s (DELETE_ITEM k)) = filters s
   \<and> pagination (inventoryReducer s (DELETE_ITEM k)) = pagination s"
  by simp

text \<open>
  C8. \<open>SET_FILTERS\<close> and \<open>SET_PAGINATION\<close> merge their payload shallowly into the
  substate: a field that the payload does not name keeps its value, a field that it names
  takes the payload's value, and the other substate is untouched. Dispatching
  \<open>SET_FILTERS {category_id: "1"}\<close> and then \<open>SET_FILTERS {search: "x"}\<close> gives filters
  with \<open>category_id = "1"\<close> and \<open>search = "x"\<close> (and nothing else, when the filters were
  empty before), and no sequence of \<open>SET_FILTERS\<close> actions changes \<open>pagination.page\<close>.
\<close>

theorem set_filters_shallow_merge:
  "(k \<notin> dom p \<longrightarrow> filters (inventoryReducer s (SET_FILTERS p)) k = filters s k)
   \<and> (k \<in> dom p \<longrightarrow> filters (inventoryReducer s (SET_FILTERS p)) k = p k)
   \<and> pagination (inventoryReducer s (SET_FILTERS p)) = pagination s
   \<and> (j \<notin> dom q \<longrightarrow> pagination (inventoryReducer s (SET_PAGINATION q)) j = pagination s j)
   \<and> (j \<in> dom q \<longrightarrow> pagination (inventoryReducer s (SET_PAGINATION q)) j = q j)
   \<and> filters (inventoryReducer s (SET_PAGINATION q)) = filters s
   \<and> filters (dispatch_all s
        [SET_FILTERS [Category_id \<mapsto> Str ''1''], SET_FILTERS [Search \<mapsto> Str ''x'']])
        = (filters s)(Category_id \<mapsto> Str ''1'', Search \<mapsto> Str ''x'')
   \<and> filters (dispatch_all (s\<lparr>filters := Map.empty\<rparr>)
        [SET_FILTERS [Category_id \<mapsto> Str ''1''], SET_FILTERS [Search \<mapsto> Str ''x'']])
        = [Category_id \<mapsto> Str ''1'', Search \<mapsto> Str ''x'']
   \<and> pagination (dispatch_all s (map SET_FILTERS ps)) Page = pagination s Page"
proof -
  have frame: "pagination (dispatch_all s (map SET_FILTERS ps)) = pagination s"
    unfolding dispatch_all_def by (induction ps arbitrary: s) simp_all
  have two: "filters (dispatch_all t
        [SET_FILTERS [Category_id \<mapsto> Str ''1''], SET_FILTERS [Search \<mapsto> Str ''x'']])
        = (filters t)(Category_id \<mapsto> Str ''1'', Search \<mapsto> Str ''x'')" for t
    by (auto simp: spread_def dispatch_all_def fun_eq_iff)
  have one: "filters (inventoryReducer s (SET_FILTERS p)) k
        = (case p k of None \<Rightarrow> filters s k | Some v \<Rightarrow> Some v)"
    "pagination (inventoryReducer s (SET_PAGINATION q)) j
        = (case q j of None \<Rightarrow> pagination s j | Some v \<Rightarrow> Some v)"
    by (simp_all add: spread_def)
  show ?thesis
    unfolding two one frame by (auto split: option.splits)
qed

theorem set_filters_shallow_merge_witness:
  "Max_stock \<notin> dom [Search \<mapsto> Str ''x'']
   \<and> Search \<in> dom [Search \<mapsto> Str ''x'']
   \<and> TotalPages \<notin> dom [Page \<mapsto> Num 2]
   \<and> Page \<in> dom [Page \<mapsto> Num 2]
   \<and> filters (inventoryReducer initialState (SET_FILTERS [Search \<mapsto> Str ''x'']))
        = [Category_id \<mapsto> Str '''', Min_stock \<mapsto> Num 0, Search \<mapsto> Str ''x'']
   \<and> pagination (inventoryReducer initialState (SET_PAGINATION [Page \<mapsto> Num 2]))
        = [Page \<mapsto> Num 2, Limit \<mapsto> Num 10, Total \<mapsto> Num 0, TotalPages \<mapsto> Num 0]
   \<and> filters (dispatch_all initialState
          [SET_FILTERS [Category_id \<mapsto> Str ''1''], SET_FILTERS [Search \<mapsto> Str ''x'']])
        = [Category_id \<mapsto> Str ''1'', Min_stock \<mapsto> Num 0, Search \<mapsto> Str ''x'']
   \<and> pagination (dispatch_all initialState
          [SET_FILTERS [Category_id \<mapsto> Str ''1''], SET_FILTERS [Search \<mapsto> Str ''x'']]) Page
        = Some (Num 1)"
  using set_filters_shallow_merge[of Max_stock "[Search \<mapsto> Str ''x'']" initialState
      TotalPages "[Page \<mapsto> Num 2]" "[[Category_id \<mapsto> Str ''1''], [Search \<mapsto> Str ''x'']]"]
    set_filters_shallow_merge[of Search "[Search \<mapsto> Str ''x'']" initialState
      Page "[Page \<mapsto> Num 2]" "[]"]
  by (auto simp: initialState_def spread_def dispatch_all_def fun_eq_iff split: option.splits)

section \<open>Properties of the session store and the authentication service\<close>

lemma keys_distinct [simp]:
  "tokenKey \<noteq> refreshKey" "tokenKey \<noteq> userKey" "refreshKey \<noteq> userKey"
  "refreshKey \<noteq> tokenKey" "userKey \<noteq> tokenKey" "userKey \<noteq> refreshKey"
  by (simp_all add: tokenKey_def refreshKey_def userKey_def)

lemma clearAuth_storage [simp]:
  "localStorage (clearAuth b) tokenKey = None"
  "localStorage (clearAuth b) refreshKey = None"
  "localStorage (clearAuth b) userKey = None"
  by (simp_all add: clearAuth_def)

lemma clearAuth_frame [simp]:
  "location_hrefs (clearAuth b) = location_hrefs b" "requests (clearAuth b) = requests b"
  by (simp_all add: clearAuth_def)

lemma navigate_simps [simp]:
  "localStorage (navigate h b) = localStorage b"
  "location_hrefs (navigate h b) = location_hrefs b @ [h]"
  "requests (navigate h b) = requests b"
  by (simp_all add: navigate_def)

lemma api_send_simps [simp]:
  "localStorage (api_send m url bd b) = localStorage b"
  "location_hrefs (api_send m url bd b) = location_hrefs b"
  "length (requests (api_send m url bd b)) = Suc (length (requests b))"
  by (simp_all add: api_send_def)

lemma client_send_simps [simp]:
  "localStorage (client_send m url bd b) = localStorage b"
  "location_hrefs (client_send m url bd b) = location_hrefs b"
  "length (requests (client_send m url bd b)) = Suc (length (requests b))"
  by (simp_all add: client_send_def)

text \<open>
  C5. \<open>getCurrentUser\<close> called while no token is cached returns \<open>null\<close> at once: the
  browser is left exactly as it was, so no request is sent and the stored session does
  not change.
\<close>

theorem getCurrentUser_without_token:
  "getToken b = None \<Longrightarrow>
     getCurrentUser me b = (None, b)
     \<and> requests (snd (getCurrentUser me b)) = requests b
     \<and> localStorage (snd (getCurrentUser me b)) = localStorage b"
  by (simp add: getCurrentUser_def truthy_string_def)

theorem getCurrentUser_without_token_witness:
  "getToken empty_browser = None
   \<and> getCurrentUser (Rejected \<lparr>response = None, message = ''Network Error''\<rparr>) empty_browser
       = (None, empty_browser)
   \<and> requests (snd (getCurrentUser (Rejected \<lparr>response = None, message = ''Network Error''\<rparr>)
                      empty_browser)) = []
   \<and> localStorage (snd (getCurrentUser (Rejected \<lparr>response = None, message = ''Network Error''\<rparr>)
                          empty_browser)) = Map.empty"
proof -
  have h: "getToken empty_browser = None"
    by (simp add: getToken_def empty_browser_def)
  show ?thesis
    using getCurrentUser_without_token[OF h,
        of "Rejected \<lparr>response = None, message = ''Network Error''\<rparr>"] h
    by (simp add: empty_browser_def)
qed

text \<open>
  C9. \<open>logout\<close> never throws, whether the server call succeeds or fails, and on both
  paths it removes the access token, the refresh token and the cached user from the
  session store and navigates to the login view, once, after one request.
\<close>

theorem logout_always_clears:
  "fst (logout r b) = Inr ()
   \<and> localStorage (snd (logout r b)) tokenKey = None
   \<and> localStorage (snd (logout r b)) refreshKey = None
   \<and> localStorage (snd (logout r b)) userKey = None
   \<and> getToken (snd (logout r b)) = None
   \<and> getUser (snd (logout r b)) = Inr JNull
   \<and> location_hrefs (snd (logout r b)) = location_hrefs b @ [''/login'']
   \<and> length (requests (snd (logout r b))) = Suc (length (requests b))"
  by (cases r) (simp_all add: logout_def Let_def getToken_def getUser_def truthy_string_def)

subsection \<open>What each operation does to the stored token\<close>

lemma getCurrentUser_token:
  "getToken (snd (getCurrentUser me b)) =
     (if truthy_string (getToken b) \<and> (\<exists>err. me = Rejected err) then None else getToken b)"
  by (cases me)
     (auto simp: getCurrentUser_def Let_def getToken_def setUser_def api_send_def clearAuth_def
           split: option.splits)

lemma login_token:
  "getToken (snd (login cr auth me b)) =
     (case auth of
        Rejected err \<Rightarrow> getToken b
      | Fulfilled res \<Rightarrow>
          if \<not> truthy_string (access_token res) then getToken b
          else if user res = None \<and> (\<exists>err. me = Rejected err) then None
          else access_token res)"
  by (cases auth; cases me)
     (auto simp: login_def getCurrentUser_def Let_def getToken_def setUser_def setToken_def
        api_send_def clearAuth_def truthy_string_def
           split: option.splits prod.splits)

lemma register_token: "getToken (snd (register p r b)) = getToken b"
  by (cases r) (simp_all add: register_def Let_def getToken_def api_send_def)

lemma logout_token: "getToken (snd (logout r b)) = None"
  by (cases r) (simp_all add: logout_def Let_def getToken_def)

lemma ApiClient_request_token:
  "getToken (snd (ApiClient_request m url bd r b)) =
     (if (\<exists>err. r = Rejected err \<and> map_option status (response err) = Some 401) then None
      else getToken b)"
  by (cases r)
     (auto simp: ApiClient_request_def on_response_error_def Let_def getToken_def)

lemma step_token:
  "getToken (browser (step c e)) =
     (case e of
        Mount \<Rightarrow> getToken (browser c)
      | CheckAuth me \<Rightarrow> getToken (snd (getCurrentUser me (browser c)))
      | Login cr auth me \<Rightarrow> getToken (snd (login cr auth me (browser c)))
      | Register p r \<Rightarrow> getToken (browser c)
      | Logout r \<Rightarrow> None
      | ApiCall m url bd r \<Rightarrow> getToken (snd (ApiClient_request m url bd r (browser c))))"
proof (cases e)
  case (Login cr auth me)
  show ?thesis
    by (cases "fst (login cr auth me (browser c))")
       (simp_all add: Login ctx_login_def Let_def split_beta getToken_def)
next
  case (Register p r)
  show ?thesis
    using register_token[of p r "browser c"]
    by (cases "fst (register p r (browser c))")
       (simp_all add: Register ctx_register_def Let_def split_beta)
next
  case (Logout r)
  show ?thesis
    using logout_token[of r "browser c"]
    by (simp add: Logout ctx_logout_def split_beta)
qed (simp_all add: checkAuth_def split_beta)

text \<open>The token that the client stores is never the empty string.\<close>

lemma step_token_nonempty:
  assumes "getToken (browser c) \<noteq> Some []"
  shows "getToken (browser (step c e)) \<noteq> Some []"
proof (cases e)
  case (CheckAuth me)
  then show ?thesis using assms
    by (simp add: step_token getCurrentUser_token del: step.simps)
next
  case (Login cr auth me)
  then show ?thesis using assms
    by (cases auth)
       (auto simp: step_token login_token truthy_string_def simp del: step.simps
             split: option.splits if_splits)
next
  case (ApiCall m url bd r)
  then show ?thesis using assms
    by (simp add: step_token ApiClient_request_token del: step.simps)
qed (use assms in \<open>simp_all add: step_token del: step.simps\<close>)

lemma run_token_nonempty:
  "getToken (browser c) \<noteq> Some [] \<Longrightarrow> getToken (browser (run c evs)) \<noteq> Some []"
  unfolding run_def
  by (induction evs arbitrary: c) (simp_all add: step_token_nonempty)

subsection \<open>The API client\<close>

text \<open>
  A fulfilled response is unwrapped to its data, and an error without a response (the
  network failed) is passed on as it is; neither touches the session or the location.
\<close>

lemma api_client_other_outcomes:
  "fst (ApiClient_request m url bd (Fulfilled res) b) = Inr (data res)
   \<and> localStorage (snd (ApiClient_request m url bd (Fulfilled res) b)) = localStorage b
   \<and> location_hrefs (snd (ApiClient_request m url bd (Fulfilled res) b)) = location_hrefs b
   \<and> (response err = None \<longrightarrow>
        fst (ApiClient_request m url bd (Rejected err) b) = Inl (Rejected_with_error err)
      \<and> localStorage (snd (ApiClient_request m url bd (Rejected err) b)) = localStorage b
      \<and> location_hrefs (snd (ApiClient_request m url bd (Rejected err) b)) = location_hrefs b)"
  by (simp add: ApiClient_request_def on_response_error_def normalized_error_def Let_def)

text \<open>
  C2, as the code has it. When a call through the API client fails with a response, the
  request was sent once and the caller's promise is rejected with the payload of the
  response if that payload is truthy, and with the error object itself if it is falsy
  (an empty body, \<open>null\<close>, \<open>0\<close>, \<open>false\<close>). On status 401 the access token, the refresh
  token and the cached user are removed and the client navigates to the login view
  exactly once; on every other status the stored session and the location are untouched.
\<close>

theorem api_client_error_handling:
  assumes "response err = Some r"
  shows "(status r = 401 \<longrightarrow>
            localStorage (snd (ApiClient_request m url bd (Rejected err) b)) tokenKey = None
          \<and> localStorage (snd (ApiClient_request m url bd (Rejected err) b)) refreshKey = None
          \<and> localStorage (snd (ApiClient_request m url bd (Rejected err) b)) userKey = None
          \<and> location_hrefs (snd (ApiClient_request m url bd (Rejected err) b))
              = location_hrefs b @ [''/login''])
       \<and> (status r \<noteq> 401 \<longrightarrow>
            localStorage (snd (ApiClient_request m url bd (Rejected err) b)) = localStorage b
          \<and> location_hrefs (snd (ApiClient_request m url bd (Rejected err) b))
              = location_hrefs b)
       \<and> (truthy (data r) \<longrightarrow>
            fst (ApiClient_request m url bd (Rejected err) b)
              = Inl (Rejected_with_data (data r)))
       \<and> (\<not> truthy (data r) \<longrightarrow>
            fst (ApiClient_request m url bd (Rejected err) b) = Inl (Rejected_with_error err))
       \<and> length (requests (snd (ApiClient_request m url bd (Rejected err) b)))
           = Suc (length (requests b))"
  using assms
  by (simp add: ApiClient_request_def on_response_error_def normalized_error_def Let_def)

theorem api_client_error_handling_witness:
  "response unauthorized_error
     = Some \<lparr> status = 401,
              data = JObj [(code_units ''detail'', JStr (code_units ''Not authenticated''))] \<rparr>
   \<and> localStorage (snd (ApiClient_request ''GET'' ''/inventory'' No_body
                           (Rejected unauthorized_error) logged_in_browser)) = Map.empty
   \<and> location_hrefs (snd (ApiClient_request ''GET'' ''/inventory'' No_body
                           (Rejected unauthorized_error) logged_in_browser)) = [''/login'']
   \<and> fst (ApiClient_request ''GET'' ''/inventory'' No_body
            (Rejected unauthorized_error) logged_in_browser)
       = Inl (Rejected_with_data
               (JObj [(code_units ''detail'', JStr (code_units ''Not authenticated''))]))"
proof -
  have h: "response unauthorized_error
     = Some \<lparr> status = 401,
              data = JObj [(code_units ''detail'', JStr (code_units ''Not authenticated''))] \<rparr>"
    by (simp add: unauthorized_error_def)
  have s: "localStorage (snd (ApiClient_request ''GET'' ''/inventory'' No_body
                           (Rejected unauthorized_error) logged_in_browser)) = Map.empty"
    by (simp add: ApiClient_request_def on_response_error_def Let_def unauthorized_error_def
        logged_in_browser_def clearAuth_def client_send_def navigate_def)
  show ?thesis
    using api_client_error_handling[OF h, of "''GET''" "''/inventory''" No_body
        logged_in_browser] h s
    by (simp add: logged_in_browser_def)
qed

text \<open>
  C2 as it is written fails for a response whose payload is falsy: on a 500 with an
  empty body the caller does not receive the payload but the error object.
\<close>

theorem api_client_empty_payload_counterexample:
  "response empty_body_error = Some \<lparr> status = 500, data = JStr [] \<rparr>
   \<and> fst (ApiClient_request ''GET'' ''/inventory'' No_body (Rejected empty_body_error)
            logged_in_browser)
       = Inl (Rejected_with_error empty_body_error)
   \<and> fst (ApiClient_request ''GET'' ''/inventory'' No_body (Rejected empty_body_error)
            logged_in_browser)
       \<noteq> Inl (Rejected_with_data (JStr []))"
  by (simp add: ApiClient_request_def on_response_error_def normalized_error_def Let_def
      empty_body_error_def)

subsection \<open>Losing the token\<close>

text \<open>
  C3, as the code has it. \<open>getCurrentUser\<close> called with a token cached, whose profile
  fetch fails, returns \<open>null\<close> and removes the access token, the refresh token and the
  cached user. It is one of three ways in which the client takes a stored token away:
  every event that removes the token is a failed profile fetch, a logout, or a call
  through the API client that the server answered with 401.
\<close>

theorem token_invalidation_paths:
  "(truthy_string (getToken b) \<longrightarrow>
       fst (getCurrentUser (Rejected err) b) = None
     \<and> localStorage (snd (getCurrentUser (Rejected err) b)) tokenKey = None
     \<and> localStorage (snd (getCurrentUser (Rejected err) b)) refreshKey = None
     \<and> localStorage (snd (getCurrentUser (Rejected err) b)) userKey = None)
   \<and> (removes_token e c \<longrightarrow> profile_fetch_failed e \<or> is_logout e \<or> is_unauthorized_call e)"
proof -
  have a: "truthy_string (getToken b) \<longrightarrow>
       fst (getCurrentUser (Rejected err) b) = None
     \<and> localStorage (snd (getCurrentUser (Rejected err) b)) tokenKey = None
     \<and> localStorage (snd (getCurrentUser (Rejected err) b)) refreshKey = None
     \<and> localStorage (snd (getCurrentUser (Rejected err) b)) userKey = None"
    by (simp add: getCurrentUser_def Let_def)
  have b: "removes_token e c \<longrightarrow> profile_fetch_failed e \<or> is_logout e \<or> is_unauthorized_call e"
  proof (cases e)
    case (CheckAuth me)
    then show ?thesis
      by (cases me)
         (auto simp: removes_token_def step_token getCurrentUser_token simp del: step.simps)
  next
    case (Login cr auth me)
    then show ?thesis
      by (cases auth; cases me)
         (auto simp: removes_token_def step_token login_token truthy_string_def
               simp del: step.simps split: option.splits if_splits)
  next
    case (ApiCall m url bd r)
    then show ?thesis
      by (cases r)
         (auto simp: removes_token_def step_token ApiClient_request_token simp del: step.simps)
  qed (auto simp: removes_token_def step_token simp del: step.simps)
  show ?thesis using a b by blast
qed

theorem token_invalidation_paths_witness:
  "truthy_string (getToken logged_in_browser)
   \<and> getCurrentUser (Rejected unauthorized_error) logged_in_browser
       = (None, \<lparr> localStorage = Map.empty, location_hrefs = [],
                  requests = [\<lparr>req_method = ''GET'', req_url = ''/auth/me'',
                               req_authorization = Some ''Bearer t1'', req_body = No_body\<rparr>] \<rparr>)
   \<and> removes_token (CheckAuth (Rejected unauthorized_error)) logged_in_client
   \<and> profile_fetch_failed (CheckAuth (Rejected unauthorized_error))"
proof -
  have h: "truthy_string (getToken logged_in_browser)"
    by (simp add: logged_in_browser_def getToken_def truthy_string_def)
  have r: "removes_token (CheckAuth (Rejected unauthorized_error)) logged_in_client"
    using h by (simp add: removes_token_def step_token getCurrentUser_token logged_in_client_def
        del: step.simps) (simp add: logged_in_browser_def getToken_def)
  have g: "getCurrentUser (Rejected unauthorized_error) logged_in_browser
       = (None, \<lparr> localStorage = Map.empty, location_hrefs = [],
                  requests = [\<lparr>req_method = ''GET'', req_url = ''/auth/me'',
                               req_authorization = Some ''Bearer t1'', req_body = No_body\<rparr>] \<rparr>)"
    by (simp add: getCurrentUser_def Let_def logged_in_browser_def getToken_def truthy_string_def
        clearAuth_def api_send_def authorization_def tokenKey_def refreshKey_def userKey_def)
  show ?thesis
    using token_invalidation_paths[of logged_in_browser unauthorized_error
        "CheckAuth (Rejected unauthorized_error)" logged_in_client] h r g
    by simp
qed

text \<open>
  C3 as it is written fails: a call through the API client that is answered with 401
  removes the token too, and it is no failed profile fetch.
\<close>

theorem unauthorized_call_removes_token_counterexample:
  "removes_token (ApiCall ''GET'' ''/inventory'' No_body (Rejected unauthorized_error))
     logged_in_client
   \<and> \<not> profile_fetch_failed
         (ApiCall ''GET'' ''/inventory'' No_body (Rejected unauthorized_error))"
  by (simp add: removes_token_def step_token ApiClient_request_token unauthorized_error_def
      logged_in_client_def del: step.simps) (simp add: logged_in_browser_def getToken_def)

subsection \<open>Login\<close>

text \<open>
  What \<open>login\<close> does on each path but one. Without a truthy access token it throws
  after its one request and stores nothing. With an inline user it stores the token, the
  refresh token if there is one, and the user, and returns the user after one request;
  with a user from the follow-up fetch it does the same after two requests. When the
  follow-up fetch is rejected it throws and the session is empty. When the login request
  itself is rejected it throws that error and stores nothing.
\<close>

lemma login_outcomes:
  "(\<not> truthy_string (access_token res) \<longrightarrow>
      fst (login cr (Fulfilled res) me b) = Inl (Error ''Login failed: access token missing'')
    \<and> localStorage (snd (login cr (Fulfilled res) me b)) = localStorage b
    \<and> length (requests (snd (login cr (Fulfilled res) me b))) = Suc (length (requests b)))
   \<and> (truthy_string (access_token res) \<and> user res = Some u \<longrightarrow>
      fst (login cr (Fulfilled res) me b) = Inr u
    \<and> getToken (snd (login cr (Fulfilled res) me b)) = access_token res
    \<and> (truthy_string (refresh_token res) \<longrightarrow>
         localStorage (snd (login cr (Fulfilled res) me b)) refreshKey = refresh_token res)
    \<and> localStorage (snd (login cr (Fulfilled res) me b)) userKey = Some (JSON_stringify_User u)
    \<and> length (requests (snd (login cr (Fulfilled res) me b))) = Suc (length (requests b)))
   \<and> (truthy_string (access_token res) \<and> user res = None \<and> me = Fulfilled (Some u) \<longrightarrow>
      fst (login cr (Fulfilled res) me b) = Inr u
    \<and> getToken (snd (login cr (Fulfilled res) me b)) = access_token res
    \<and> (truthy_string (refresh_token res) \<longrightarrow>
         localStorage (snd (login cr (Fulfilled res) me b)) refreshKey = refresh_token res)
    \<and> localStorage (snd (login cr (Fulfilled res) me b)) userKey = Some (JSON_stringify_User u)
    \<and> length (requests (snd (login cr (Fulfilled res) me b))) = Suc (Suc (length (requests b))))
   \<and> (truthy_string (access_token res) \<and> user res = None \<and> me = Rejected err \<longrightarrow>
      fst (login cr (Fulfilled res) me b) = Inl (Error ''Login failed: user data missing'')
    \<and> getToken (snd (login cr (Fulfilled res) me b)) = None
    \<and> localStorage (snd (login cr (Fulfilled res) me b)) refreshKey = None
    \<and> localStorage (snd (login cr (Fulfilled res) me b)) userKey = None
    \<and> length (requests (snd (login cr (Fulfilled res) me b))) = Suc (Suc (length (requests b))))
   \<and> fst (login cr (Rejected err) me b) = Inl (Axios err)
   \<and> localStorage (snd (login cr (Rejected err) me b)) = localStorage b"
  by (auto simp: login_def getCurrentUser_def Let_def getToken_def setUser_def setToken_def
        truthy_string_def split: option.splits)

text \<open>
  C4. The remaining path: the login response carries a token and no user, and the
  follow-up fetch succeeds with an empty body. \<open>login\<close> throws, yet the token stays in
  the store with no cached user beside it, and \<open>isAuthenticated\<close> answers true. The
  sibling path, on which the follow-up fetch is rejected, ends with the token removed.
\<close>

theorem login_keeps_token_without_user:
  "fst (login sample_credentials (Fulfilled token_only_response) (Fulfilled None) empty_browser)
     = Inl (Error ''Login failed: user data missing'')
   \<and> getToken (snd (login sample_credentials (Fulfilled token_only_response) (Fulfilled None)
                      empty_browser)) = Some ''t1''
   \<and> localStorage (snd (login sample_credentials (Fulfilled token_only_response) (Fulfilled None)
                      empty_browser)) userKey = None
   \<and> isAuthenticated (snd (login sample_credentials (Fulfilled token_only_response)
                      (Fulfilled None) empty_browser))
   \<and> fst (login sample_credentials (Fulfilled token_only_response)
            (Rejected unauthorized_error) empty_browser)
     = Inl (Error ''Login failed: user data missing'')
   \<and> getToken (snd (login sample_credentials (Fulfilled token_only_response)
                      (Rejected unauthorized_error) empty_browser)) = None"
  by (simp add: login_def getCurrentUser_def Let_def token_only_response_def empty_browser_def
      setToken_def getToken_def truthy_string_def api_send_def isAuthenticated_def clearAuth_def)

subsection \<open>Reading the cached user\<close>

text \<open>The text written for the sample user is read back as the object it describes.\<close>

lemma parse_stringify_sample:
  "JSON_parse (JSON_stringify_User sample_user)
     = Inr (JObj
         [(code_units ''id'', JStr (code_units ''u-1'')),
          (code_units ''username'', JStr (code_units ''staff_gudang'')),
          (code_units ''email'', JStr (code_units ''staff@gudang.com'')),
          (code_units ''full_name'', JStr (code_units ''Staff Gudang'')),
          (code_units ''role'', JStr (code_units ''gudang'')),
          (code_units ''warehouse_id'', JStr (code_units ''w-1'')),
          (code_units ''is_active'', JBool True),
          (code_units ''is_verified'', JBool True)])"
  by code_simp


lemma tokenize_bad_start:
  assumes "\<not> is_ws c" "\<not> is_digit c" "c \<notin> set ''{}[]:,-tfn''" "c \<noteq> CHR 0x22"
  shows "tokenize (c # cs) = None"
  using assms by simp

text \<open>
  C6, as the code has it. \<open>getUser\<close> hands every non-empty string stored under the
  cached-user key to \<open>JSON.parse\<close> and returns what it returns, with no check of the
  shape and no handler: nothing stored, the empty string and the text \<open>null\<close> give a
  \<open>null\<close> user without an error, and a stored text whose first character cannot begin
  any JSON text makes \<open>getUser\<close> raise a \<open>SyntaxError\<close>.
\<close>

theorem getUser_parses_stored_text:
  "(\<not> truthy_string (localStorage b userKey) \<longrightarrow> getUser b = Inr JNull)
   \<and> (localStorage b userKey = Some ''null'' \<longrightarrow> getUser b = Inr JNull)
   \<and> (localStorage b userKey = Some s \<and> s \<noteq> [] \<longrightarrow> getUser b = JSON_parse s)
   \<and> (localStorage b userKey = Some (c # cs) \<and> \<not> is_ws c \<and> \<not> is_digit c
        \<and> c \<notin> set ''{}[]:,-tfn'' \<and> c \<noteq> CHR 0x22 \<longrightarrow> getUser b = Inl SyntaxError)"
proof -
  have n: "JSON_parse ''null'' = Inr JNull"
    by (simp add: JSON_parse_def is_ws_def is_digit_def)
  have t: "\<not> is_ws c \<and> \<not> is_digit c \<and> c \<notin> set ''{}[]:,-tfn'' \<and> c \<noteq> CHR 0x22
        \<longrightarrow> JSON_parse (c # cs) = Inl SyntaxError"
    using tokenize_bad_start[of c cs] by (auto simp: JSON_parse_def)
  show ?thesis
    using n t by (auto simp: getUser_def Let_def truthy_string_def)
qed

theorem getUser_parses_stored_text_witness:
  "\<not> truthy_string (localStorage empty_browser userKey)
   \<and> getUser empty_browser = Inr JNull
   \<and> localStorage (empty_browser\<lparr>localStorage := [userKey \<mapsto> ''null'']\<rparr>) userKey = Some ''null''
   \<and> getUser (empty_browser\<lparr>localStorage := [userKey \<mapsto> ''null'']\<rparr>) = Inr JNull
   \<and> localStorage (empty_browser\<lparr>localStorage := [userKey \<mapsto> ''x-y'']\<rparr>) userKey = Some ''x-y''
   \<and> \<not> is_ws CHR ''x'' \<and> \<not> is_digit CHR ''x'' \<and> CHR ''x'' \<notin> set ''{}[]:,-tfn''
   \<and> getUser (empty_browser\<lparr>localStorage := [userKey \<mapsto> ''x-y'']\<rparr>) = JSON_parse ''x-y''
   \<and> getUser (empty_browser\<lparr>localStorage := [userKey \<mapsto> ''x-y'']\<rparr>) = Inl SyntaxError"
proof -
  have h1: "\<not> truthy_string (localStorage empty_browser userKey)"
    by (simp add: empty_browser_def truthy_string_def)
  have h2: "localStorage (empty_browser\<lparr>localStorage := [userKey \<mapsto> ''null'']\<rparr>) userKey
      = Some ''null''"
    by simp
  have h3: "localStorage (empty_browser\<lparr>localStorage := [userKey \<mapsto> ''x-y'']\<rparr>) userKey
      = Some ''x-y''"
    by simp
  have h4: "\<not> is_ws CHR ''x'' \<and> \<not> is_digit CHR ''x'' \<and> CHR ''x'' \<notin> set ''{}[]:,-tfn''"
    by (simp add: is_ws_def is_digit_def)
  have h5: "''x-y'' \<noteq> []" "CHR ''x'' \<noteq> CHR 0x22"
    by simp_all
  have c1: "getUser empty_browser = Inr JNull"
    using getUser_parses_stored_text[of empty_browser "''null''" "CHR ''x''" "[]"] h1
    by blast
  have c2: "getUser (empty_browser\<lparr>localStorage := [userKey \<mapsto> ''null'']\<rparr>) = Inr JNull"
    using getUser_parses_stored_text[of "empty_browser\<lparr>localStorage := [userKey \<mapsto> ''null'']\<rparr>"
        "''null''" "CHR ''x''" "[]"] h2
    by blast
  have c3: "getUser (empty_browser\<lparr>localStorage := [userKey \<mapsto> ''x-y'']\<rparr>) = JSON_parse ''x-y''"
    and c4: "getUser (empty_browser\<lparr>localStorage := [userKey \<mapsto> ''x-y'']\<rparr>) = Inl SyntaxError"
    using getUser_parses_stored_text[of "empty_browser\<lparr>localStorage := [userKey \<mapsto> ''x-y'']\<rparr>"
        "''x-y''" "CHR ''x''" "''-y''"] h3 h4 h5
    by blast+
  show ?thesis
    using h1 h2 h3 h4 c1 c2 c3 c4 by (intro conjI) simp_all
qed

text \<open>
  C6 as it is written fails: with the text \<open>not json\<close> under the cached-user key,
  \<open>getUser\<close> raises.
\<close>

theorem getUser_malformed_counterexample:
  "localStorage malformed_user_browser userKey = Some ''not json''
   \<and> getUser malformed_user_browser = Inl SyntaxError"
  by (simp add: malformed_user_browser_def getUser_def Let_def truthy_string_def JSON_parse_def
      is_ws_def is_digit_def)

subsection \<open>Being authenticated\<close>

text \<open>
  C7, as the code has it. In every state that the client reaches from its initial state,
  \<open>isAuthenticated()\<close> of the service is true exactly when \<open>getToken()\<close> is not
  \<open>null\<close>. The \<open>isAuthenticated\<close> flag of the provider is another thing: it is true
  exactly when the provider holds a user.
\<close>

theorem isAuthenticated_iff_token_present:
  "(isAuthenticated (browser (run initial_client evs))
      \<longleftrightarrow> getToken (browser (run initial_client evs)) \<noteq> None)
   \<and> (ctx_isAuthenticated (provider (run initial_client evs))
      \<longleftrightarrow> ctx_user (provider (run initial_client evs)) \<noteq> None)"
proof -
  have "getToken (browser initial_client) \<noteq> Some []"
    by (simp add: initial_client_def getToken_def)
  then have "getToken (browser (run initial_client evs)) \<noteq> Some []"
    by (rule run_token_nonempty)
  then show ?thesis
    by (cases "getToken (browser (run initial_client evs))")
       (simp_all add: isAuthenticated_def truthy_string_def ctx_isAuthenticated_def)
qed

text \<open>
  C7 as it is written fails for the provider's flag: after a login and a page load the
  token is stored while the flag is false, and after a login and a call answered with 401
  the token is gone while the flag is still true.
\<close>

theorem provider_flag_differs_counterexample:
  "getToken (browser reloaded_client) = Some ''t1''
   \<and> \<not> ctx_isAuthenticated (provider reloaded_client)
   \<and> getToken (browser rejected_client) = None
   \<and> ctx_isAuthenticated (provider rejected_client)"
proof -
  let ?c1 = "step initial_client
               (Login sample_credentials (Fulfilled full_response) (Fulfilled None))"
  have tok: "getToken (browser ?c1) = Some ''t1''"
    by (simp add: step_token login_token full_response_def truthy_string_def del: step.simps)
  have usr: "ctx_user (provider ?c1) = Some sample_user"
    by (simp add: ctx_login_def login_def Let_def full_response_def truthy_string_def)
  have a: "getToken (browser (step ?c1 Mount)) = Some ''t1''"
    using tok by simp
  have b: "ctx_user (provider (step ?c1 Mount)) = None"
    by (simp add: AuthProvider_initial_def)
  have c: "getToken (browser (step ?c1
             (ApiCall ''GET'' ''/inventory'' No_body (Rejected unauthorized_error)))) = None"
    by (simp add: step_token ApiClient_request_token unauthorized_error_def del: step.simps)
  have d: "ctx_user (provider (step ?c1
             (ApiCall ''GET'' ''/inventory'' No_body (Rejected unauthorized_error))))
           = Some sample_user"
    using usr by simp
  show ?thesis
    using a b c d
    by (simp add: reloaded_client_def rejected_client_def run_def ctx_isAuthenticated_def)
qed

end
